theory Spec2Isabelle
  imports Main "HOL-Library.Word"
begin

section \<open>Data model of the relay core (package chainproxy)\<close>

text \<open>
  Go's fixed-width integers are 64-bit words: \<open>+\<close> and \<open>-\<close> wrap around,
  \<open>\<le>\<close> and \<open><\<close> read a word as unsigned (uint64), \<open><s\<close> as two's
  complement (int64). A conversion between int64 and uint64 keeps the bits, so it
  is the identity on words. Byte slices and Go strings are \<open>string\<close>.
\<close>

type_synonym int64 = "64 word"
type_synonym uint64 = "64 word"
type_synonym duration = "64 word"

text \<open>A Go \<open>error\<close> value, carrying what its \<open>Error()\<close> method returns.\<close>

datatype go_error = GoError string

fun Error :: "go_error \<Rightarrow> string" where
  "Error (GoError m) = m"

text \<open>
  \<open>context.Context\<close>: the caller's context is opaque (an identifier);
  \<open>context.WithTimeout(parent, d)\<close> derives a context that carries a deadline
  \<open>d\<close> from now.
\<close>

datatype go_context = Ctx nat | WithTimeout go_context duration

text \<open>\<open>time.Second\<close> is 10^9 nanoseconds; \<open>DefaultTimeout = 5 * time.Second\<close>.\<close>

definition Second :: duration where
  "Second = 1000000000"

definition DefaultTimeout :: duration where
  "DefaultTimeout = 5 * Second"

text \<open>\<open>context.DeadlineExceeded.Error()\<close> of Go's standard library.\<close>

definition DeadlineExceeded_Error :: string where
  "DeadlineExceeded_Error = ''context deadline exceeded''"

text \<open>
  The protobuf messages (package pairingtypes). Only the fields the relay core
  reads or writes are interpreted; payloads and signatures are opaque bytes, and a
  nil pointer field is \<open>None\<close>.
\<close>

type_synonym QualityOfServiceReport = string

record VRFData =
  vrf_material :: string
  vrf_Sig :: string

record RelayRequest =
  Provider :: string
  ConnectionType :: string
  ApiUrl :: string
  Data :: string
  SessionId :: uint64
  ChainID :: string
  CuSum :: uint64
  BlockHeight :: int64
  RelayNum :: uint64
  RequestBlock :: int64
  QoSReport :: "QualityOfServiceReport option"
  DataReliability :: "VRFData option"
  UnresponsiveProviders :: string
  Sig :: string

record RelayReply =
  reply_Data :: string
  reply_Sig :: string
  LatestBlock :: int64
  reply_SigBlocks :: string

text \<open>
  The leased session (lavasession.SingleConsumerSession) with its quality-of-service
  counters, which are uint64 fields. \<open>Client_Acc\<close> is
  \<open>consumerSession.Client.Acc\<close> and \<open>Endpoint_Client\<close> names the transport
  client \<open>*consumerSession.Endpoint.Client\<close>. The session is behind a pointer
  that is never nil once \<open>GetSession\<close> has succeeded; a callback that assigns to
  it returns the session as it leaves it.
\<close>

record QoSInfo =
  LastQoSReport :: "QualityOfServiceReport option"
  TotalRelays :: uint64
  AnsweredRelays :: uint64
  ConsecutiveTimeOut :: uint64

record SingleConsumerSession =
  sess_SessionId :: int64
  sess_CuSum :: uint64
  sess_RelayNum :: uint64
  QoSInfo :: QoSInfo
  Client_Acc :: string
  Endpoint_Client :: nat

text \<open>What the methods of a parsed \<open>NodeMessage\<close> return.\<close>

record SpecCategory =
  Deterministic :: bool
  Subscription :: bool

record ServiceApi =
  ComputeUnits :: uint64
  Category :: SpecCategory

record NodeMessage =
  GetServiceApi :: ServiceApi
  RequestedBlock :: int64

text \<open>The sentry, as far as \<open>GetChainProxy\<close> reads it.\<close>

record Sentry =
  ApiInterface :: string
  sentry_ChainID :: string

section \<open>GetChainProxy\<close>

text \<open>
  The three constructors build the per-protocol proxy around their arguments and
  the fresh \<open>ConsumerSessionManager\<close>; each returns a proxy value, never nil.
  The sentry pointer is dereferenced unconditionally, so the model takes a sentry.
\<close>

datatype ChainProxy =
    NewJrpcChainProxy string uint64 Sentry
  | NewtendermintRpcChainProxy string uint64 Sentry
  | NewRestChainProxy string Sentry

definition GetChainProxy ::
  "string \<Rightarrow> uint64 \<Rightarrow> Sentry \<Rightarrow> ChainProxy option \<times> go_error option" where
  "GetChainProxy nodeUrl nConns sentry =
     (if ApiInterface sentry = ''jsonrpc'' then
        (Some (NewJrpcChainProxy nodeUrl nConns sentry), None)
      else if ApiInterface sentry = ''tendermintrpc'' then
        (Some (NewtendermintRpcChainProxy nodeUrl nConns sentry), None)
      else if ApiInterface sentry = ''rest'' then
        (Some (NewRestChainProxy nodeUrl sentry), None)
      else
        (None, Some (GoError (''chain proxy for apiInterface ('' @ ApiInterface sentry
                                @ '') not found''))))"

section \<open>External collaborators\<close>

text \<open>
  The relay core calls code that lives in other packages: the signature primitives
  (sigs), the address codec of the SDK, the transport client of an endpoint, the
  sentry, the session manager and the per-protocol parser. Each is a parameter of
  the model, one field per function, returning \<open>Inl\<close> for a non-nil error.
  A transport call returns either an error or a reply. Public keys, addresses and
  signatures are opaque bytes. \<open>UpdateRequestedBlock\<close> mutates the request it
  is handed: the field returns the request as it is left. \<open>CalculateQoS\<close>
  mutates the session: the field returns the session as it is left.
  \<open>time_Since\<close> is the latency that \<open>time.Since(relaySentTime)\<close> measures.
\<close>

record env =
  ParseMsg :: "string \<Rightarrow> string \<Rightarrow> string \<Rightarrow> go_error + NodeMessage"
  GetSession ::
    "go_context \<Rightarrow> uint64 \<Rightarrow> go_error + (SingleConsumerSession \<times> uint64 \<times> string \<times> string)"
  GetSentry :: Sentry
  GetSpecComparesHashes :: bool
  ExpectedBlockHeight :: "int64 \<times> int64"
  GetProvidersCount :: int64
  SignRelay :: "string \<Rightarrow> RelayRequest \<Rightarrow> go_error + string"
  SignVRFData :: "string \<Rightarrow> VRFData option \<Rightarrow> go_error + string"
  RecoverPubKeyFromRelayReply :: "RelayReply \<Rightarrow> RelayRequest \<Rightarrow> go_error + string"
  RecoverPubKeyFromResponseFinalizationData ::
    "RelayReply \<Rightarrow> RelayRequest \<Rightarrow> string \<Rightarrow> go_error + string"
  PubKey_Address_String :: "string \<Rightarrow> string"
  AccAddressFromHex :: "string \<Rightarrow> go_error + string"
  AccAddressFromBech32 :: "string \<Rightarrow> go_error + string"
  AccAddress_String :: "string \<Rightarrow> string"
  Relay :: "nat \<Rightarrow> go_context \<Rightarrow> RelayRequest \<Rightarrow> go_error + RelayReply"
  RelaySubscribe :: "nat \<Rightarrow> go_context \<Rightarrow> RelayRequest \<Rightarrow> go_error + nat"
  UpdateRequestedBlock :: "RelayRequest \<Rightarrow> RelayReply \<Rightarrow> RelayRequest"
  CalculateQoS ::
    "SingleConsumerSession \<Rightarrow> uint64 \<Rightarrow> duration \<Rightarrow> int64 \<Rightarrow> int64 \<Rightarrow> int64
       \<Rightarrow> SingleConsumerSession"
  time_Since :: duration

section \<open>VerifyRelayReply\<close>

text \<open>The result is Go's \<open>error\<close>: \<open>None\<close> is nil, the reply is accepted.\<close>

definition mismatch_in_reply :: "string \<Rightarrow> string \<Rightarrow> go_error" where
  "mismatch_in_reply serverAddr addr =
     GoError (''server address mismatch in reply ('' @ serverAddr @ '') ('' @ addr @ '')'')"

definition mismatch_in_sigblocks :: "string \<Rightarrow> string \<Rightarrow> go_error" where
  "mismatch_in_sigblocks serverAddr strAdd =
     GoError (''server address mismatch in reply sigblocks ('' @ serverAddr @ '') (''
                @ strAdd @ '')'')"

definition VerifyRelayReply ::
  "env \<Rightarrow> RelayReply \<Rightarrow> RelayRequest \<Rightarrow> string \<Rightarrow> bool \<Rightarrow> go_error option" where
  "VerifyRelayReply e reply relayRequest addr comparesHashes =
     (case RecoverPubKeyFromRelayReply e reply relayRequest of
        Inl err \<Rightarrow> Some err
      | Inr serverKey \<Rightarrow>
      (case AccAddressFromHex e (PubKey_Address_String e serverKey) of
        Inl err \<Rightarrow> Some err
      | Inr serverAddr \<Rightarrow>
        if AccAddress_String e serverAddr \<noteq> addr then
          Some (mismatch_in_reply (AccAddress_String e serverAddr) addr)
        else if comparesHashes then
          (case AccAddressFromBech32 e addr of
             Inl err \<Rightarrow> Some err
           | Inr strAdd \<Rightarrow>
           (case RecoverPubKeyFromResponseFinalizationData e reply relayRequest strAdd of
             Inl err \<Rightarrow> Some err
           | Inr serverKey2 \<Rightarrow>
           (case AccAddressFromHex e (PubKey_Address_String e serverKey2) of
             Inl err \<Rightarrow> Some err
           | Inr serverAddr2 \<Rightarrow>
             if AccAddress_String e serverAddr2 \<noteq> AccAddress_String e strAdd then
               Some (mismatch_in_sigblocks (AccAddress_String e serverAddr2)
                       (AccAddress_String e strAdd))
             else None)))
        else None))"

text \<open>
  The two checks of \<open>VerifyRelayReply\<close>, each read for an address. The primary
  one: the key recovered from the reply's signature derives the address \<open>addr\<close>.
  The one on the finalization data: the key recovered with the address \<open>a\<close> as
  the binding context derives the address \<open>a\<close> itself.
\<close>

definition signed_by :: "env \<Rightarrow> RelayReply \<Rightarrow> RelayRequest \<Rightarrow> string \<Rightarrow> bool" where
  "signed_by e reply relayRequest addr =
     (case RecoverPubKeyFromRelayReply e reply relayRequest of
        Inl err \<Rightarrow> False
      | Inr serverKey \<Rightarrow>
        (case AccAddressFromHex e (PubKey_Address_String e serverKey) of
           Inl err \<Rightarrow> False
         | Inr serverAddr \<Rightarrow> AccAddress_String e serverAddr = addr))"

definition finalization_binds_to :: "env \<Rightarrow> RelayReply \<Rightarrow> RelayRequest \<Rightarrow> string \<Rightarrow> bool" where
  "finalization_binds_to e reply relayRequest a =
     (case RecoverPubKeyFromResponseFinalizationData e reply relayRequest a of
        Inl err \<Rightarrow> False
      | Inr serverKey \<Rightarrow>
        (case AccAddressFromHex e (PubKey_Address_String e serverKey) of
           Inl err \<Rightarrow> False
         | Inr serverAddr \<Rightarrow> AccAddress_String e serverAddr = AccAddress_String e a))"

section \<open>The two callbacks of SendRelay\<close>

text \<open>
  The closures share the variables \<open>blockHeight\<close> and \<open>requestedBlock\<close> of
  \<open>SendRelay\<close>; they are threaded through as a state, together with the trace of
  the calls made to the signing primitives, the transport and the session manager,
  in the order they happen. What the closures capture and never assign is a record
  of its own.
\<close>

datatype event =
    SignRelay_call string RelayRequest
  | SignVRFData_call string "VRFData option"
  | Relay_call nat go_context RelayRequest
  | RelaySubscribe_call nat go_context RelayRequest
  | OnSessionDone_call SingleConsumerSession uint64 int64

record relay_state =
  blockHeight :: int64
  requestedBlock :: int64
  trace :: "event list"

record captured =
  c_ctx :: go_context
  c_privKey :: string
  c_url :: string
  c_req :: string
  c_connectionType :: string
  c_nodeMsg :: NodeMessage
  c_isSubscription :: bool
  c_epoch :: uint64
  c_providerPublicAddress :: string

definition emit :: "event \<Rightarrow> relay_state \<Rightarrow> relay_state" where
  "emit ev st = st\<lparr>trace := trace st @ [ev]\<rparr>"

fun is_send :: "event \<Rightarrow> bool" where
  "is_send (Relay_call c cx r) = True"
| "is_send (RelaySubscribe_call c cx r) = True"
| "is_send ev = False"

fun is_OnSessionDone :: "event \<Rightarrow> bool" where
  "is_OnSessionDone (OnSessionDone_call s ep lb) = True"
| "is_OnSessionDone ev = False"

text \<open>The request that a call to a signing primitive or to the transport carries.\<close>

fun event_request :: "event \<Rightarrow> RelayRequest option" where
  "event_request (SignRelay_call k r) = Some r"
| "event_request (Relay_call c cx r) = Some r"
| "event_request (RelaySubscribe_call c cx r) = Some r"
| "event_request ev = None"

text \<open>The request literal of \<open>callback_send_relay\<close>, before it is signed.\<close>

definition primary_request ::
  "env \<Rightarrow> captured \<Rightarrow> SingleConsumerSession \<Rightarrow> string \<Rightarrow> int64 \<Rightarrow> RelayRequest" where
  "primary_request e cap consumerSession unresponsiveProviders bh =
     \<lparr> Provider = c_providerPublicAddress cap,
       ConnectionType = c_connectionType cap,
       ApiUrl = c_url cap,
       Data = c_req cap,
       SessionId = sess_SessionId consumerSession,
       ChainID = sentry_ChainID (GetSentry e),
       CuSum = sess_CuSum consumerSession,
       BlockHeight = bh,
       RelayNum = sess_RelayNum consumerSession,
       RequestBlock = RequestedBlock (c_nodeMsg cap),
       QoSReport = LastQoSReport (QoSInfo consumerSession),
       DataReliability = None,
       UnresponsiveProviders = unresponsiveProviders,
       Sig = [] \<rparr>"

type_synonym relay_result =
  "(go_error + (RelayReply option \<times> nat option \<times> RelayRequest))
     \<times> SingleConsumerSession \<times> relay_state"

text \<open>The transport returned an error: the branch \<open>if err != nil\<close> after the send.\<close>

definition send_failed ::
  "go_error \<Rightarrow> SingleConsumerSession \<Rightarrow> relay_state \<Rightarrow> relay_result" where
  "send_failed err consumerSession st =
     (if Error err = DeadlineExceeded_Error then
        (Inl err,
         consumerSession\<lparr>QoSInfo := (QoSInfo consumerSession)
           \<lparr>ConsecutiveTimeOut := ConsecutiveTimeOut (QoSInfo consumerSession) + 1\<rparr>\<rparr>,
         st)
      else (Inl err, consumerSession, st))"

text \<open>A unary relay was answered: the branch \<open>if !isSubscription\<close> and the return.\<close>

definition relay_answered ::
  "env \<Rightarrow> captured \<Rightarrow> RelayReply \<Rightarrow> RelayRequest \<Rightarrow> SingleConsumerSession \<Rightarrow> relay_state
     \<Rightarrow> relay_result" where
  "relay_answered e cap reply relayRequest consumerSession st =
     (let currentLatency = time_Since e;
          consumerSession1 = consumerSession\<lparr>QoSInfo := (QoSInfo consumerSession)
            \<lparr>ConsecutiveTimeOut := 0,
             AnsweredRelays := AnsweredRelays (QoSInfo consumerSession) + 1\<rparr>\<rparr>;
          relayRequest1 = UpdateRequestedBlock e relayRequest reply;
          st1 = st\<lparr>requestedBlock := RequestBlock relayRequest1\<rparr>
      in case VerifyRelayReply e reply relayRequest1 (Client_Acc consumerSession1)
                (GetSpecComparesHashes e) of
           Some err \<Rightarrow> (Inl err, consumerSession1, st1)
         | None \<Rightarrow>
             (let expectedBH = fst (ExpectedBlockHeight e);
                  numOfProviders = snd (ExpectedBlockHeight e);
                  consumerSession2 =
                    CalculateQoS e consumerSession1
                      (ComputeUnits (GetServiceApi (c_nodeMsg cap))) currentLatency
                      (expectedBH - LatestBlock reply) numOfProviders (GetProvidersCount e)
              in (Inr (Some reply, None, relayRequest1), consumerSession2, st1)))"

definition callback_send_relay ::
  "env \<Rightarrow> captured \<Rightarrow> SingleConsumerSession \<Rightarrow> string \<Rightarrow> relay_state \<Rightarrow> relay_result" where
  "callback_send_relay e cap consumerSession unresponsiveProviders st =
     (let st1 = st\<lparr>blockHeight := c_epoch cap\<rparr>;
          relayRequest =
            primary_request e cap consumerSession unresponsiveProviders (blockHeight st1);
          st2 = emit (SignRelay_call (c_privKey cap) relayRequest) st1
      in case SignRelay e (c_privKey cap) relayRequest of
           Inl err \<Rightarrow> (Inl err, consumerSession, st2)
         | Inr sig \<Rightarrow>
             (let relayRequest1 = relayRequest\<lparr>Sig := sig\<rparr>;
                  c = Endpoint_Client consumerSession;
                  consumerSession1 = consumerSession\<lparr>QoSInfo := (QoSInfo consumerSession)
                    \<lparr>TotalRelays := TotalRelays (QoSInfo consumerSession) + 1\<rparr>\<rparr>;
                  connectCtx = WithTimeout (c_ctx cap) DefaultTimeout
              in if c_isSubscription cap then
                   (case RelaySubscribe e c (c_ctx cap) relayRequest1 of
                      Inl err \<Rightarrow>
                        send_failed err consumerSession1
                          (emit (RelaySubscribe_call c (c_ctx cap) relayRequest1) st2)
                    | Inr replyServer \<Rightarrow>
                        (Inr (None, Some replyServer, relayRequest1), consumerSession1,
                         emit (RelaySubscribe_call c (c_ctx cap) relayRequest1) st2))
                 else
                   (case Relay e c connectCtx relayRequest1 of
                      Inl err \<Rightarrow>
                        send_failed err consumerSession1
                          (emit (Relay_call c connectCtx relayRequest1) st2)
                    | Inr reply \<Rightarrow>
                        relay_answered e cap reply relayRequest1 consumerSession1
                          (emit (Relay_call c connectCtx relayRequest1) st2))))"

text \<open>
  A call either returns or panics on a nil pointer: \<open>NilPanic\<close> is Go's
  run-time panic, after which nothing of the function runs any more.
\<close>

datatype 'a outcome = Returns 'a | NilPanic

text \<open>The request literal of \<open>callback_send_reliability\<close>, before it is signed.\<close>

definition reliability_request ::
  "env \<Rightarrow> captured \<Rightarrow> SingleConsumerSession \<Rightarrow> VRFData option \<Rightarrow> string \<Rightarrow> relay_state
     \<Rightarrow> RelayRequest" where
  "reliability_request e cap consumerSession dataReliability unresponsiveProviders st =
     \<lparr> Provider = Client_Acc consumerSession,
       ConnectionType = c_connectionType cap,
       ApiUrl = c_url cap,
       Data = c_req cap,
       SessionId = 0,
       ChainID = sentry_ChainID (GetSentry e),
       CuSum = sess_CuSum consumerSession,
       BlockHeight = blockHeight st,
       RelayNum = sess_RelayNum consumerSession,
       RequestBlock = requestedBlock st,
       QoSReport = None,
       DataReliability = dataReliability,
       UnresponsiveProviders = unresponsiveProviders,
       Sig = [] \<rparr>"

definition blockHeight_not_set :: go_error where
  "blockHeight_not_set =
     GoError ''expected callback_send_relay to be called first and set blockHeight''"

type_synonym reliability_result =
  "(go_error + (RelayReply \<times> RelayRequest)) outcome \<times> relay_state"

text \<open>
  \<open>dataReliability\<close> is a pointer: \<open>SignVRFData\<close> is handed it as it is, and
  the assignment to \<open>relayRequest.DataReliability.Sig\<close> panics when it is nil.
  The callback does not assign to the session.
\<close>

definition callback_send_reliability ::
  "env \<Rightarrow> captured \<Rightarrow> SingleConsumerSession \<Rightarrow> VRFData option \<Rightarrow> string \<Rightarrow> relay_state
     \<Rightarrow> reliability_result" where
  "callback_send_reliability e cap consumerSession dataReliability unresponsiveProviders st =
     (if blockHeight st <s 0 then (Returns (Inl blockHeight_not_set), st)
      else
        (let relayRequest =
               reliability_request e cap consumerSession dataReliability
                 unresponsiveProviders st;
             st1 = emit (SignRelay_call (c_privKey cap) relayRequest) st
         in case SignRelay e (c_privKey cap) relayRequest of
              Inl err \<Rightarrow> (Returns (Inl err), st1)
            | Inr sig \<Rightarrow>
            (let relayRequest1 = relayRequest\<lparr>Sig := sig\<rparr>;
                 st2 = emit (SignVRFData_call (c_privKey cap) (DataReliability relayRequest1)) st1
             in case SignVRFData e (c_privKey cap) (DataReliability relayRequest1) of
                  Inl err \<Rightarrow> (Returns (Inl err), st2)
                | Inr sig2 \<Rightarrow>
                (case DataReliability relayRequest1 of
                   None \<Rightarrow> (NilPanic, st2)
                 | Some vrf \<Rightarrow>
                 (let relayRequest2 =
                        relayRequest1\<lparr>DataReliability := Some (vrf\<lparr>vrf_Sig := sig2\<rparr>)\<rparr>;
                      c = Endpoint_Client consumerSession;
                      st3 = emit (Relay_call c (c_ctx cap) relayRequest2) st2
                  in case Relay e c (c_ctx cap) relayRequest2 of
                       Inl err \<Rightarrow> (Returns (Inl err), st3)
                     | Inr reply \<Rightarrow>
                     (case VerifyRelayReply e reply relayRequest2 (Client_Acc consumerSession)
                             (GetSpecComparesHashes e) of
                        Some err \<Rightarrow> (Returns (Inl err), st3)
                      | None \<Rightarrow> (Returns (Inr (reply, relayRequest2)), st3)))))))"

section \<open>SendRelay\<close>

text \<open>
  \<open>cp.GetSentry().SendRelay\<close> runs the two callbacks; its code is in package
  sentry, so it is a parameter: a function of the callbacks, its other arguments and
  the state, which returns the triple \<open>(reply, replyServer, err)\<close> together with
  the session and the state as it leaves them, or panics.
\<close>

type_synonym orchestrator =
  "go_context \<Rightarrow> SingleConsumerSession \<Rightarrow> string \<Rightarrow> uint64 \<Rightarrow> string
     \<Rightarrow> (SingleConsumerSession \<Rightarrow> string \<Rightarrow> relay_state \<Rightarrow> relay_result)
     \<Rightarrow> (SingleConsumerSession \<Rightarrow> VRFData option \<Rightarrow> string \<Rightarrow> relay_state \<Rightarrow> reliability_result)
     \<Rightarrow> SpecCategory \<Rightarrow> relay_state
     \<Rightarrow> ((RelayReply option \<times> nat option \<times> go_error option) \<times> SingleConsumerSession) outcome
          \<times> relay_state"

definition initial_state :: relay_state where
  "initial_state = \<lparr> blockHeight = - 1, requestedBlock = 0, trace = [] \<rparr>"

definition make_captured ::
  "go_context \<Rightarrow> string \<Rightarrow> string \<Rightarrow> string \<Rightarrow> string \<Rightarrow> NodeMessage \<Rightarrow> uint64 \<Rightarrow> string
     \<Rightarrow> captured" where
  "make_captured cx privKey url req connectionType nodeMsg epoch providerPublicAddress =
     \<lparr> c_ctx = cx, c_privKey = privKey, c_url = url, c_req = req,
       c_connectionType = connectionType, c_nodeMsg = nodeMsg,
       c_isSubscription = Subscription (Category (GetServiceApi nodeMsg)),
       c_epoch = epoch, c_providerPublicAddress = providerPublicAddress \<rparr>"

text \<open>
  The result is the triple \<open>SendRelay\<close> returns, or the panic of
  \<open>reply.LatestBlock\<close> on a nil \<open>reply\<close>, with the trace of the calls made.
\<close>

definition SendRelay ::
  "env \<Rightarrow> orchestrator \<Rightarrow> go_context \<Rightarrow> string \<Rightarrow> string \<Rightarrow> string \<Rightarrow> string
     \<Rightarrow> (RelayReply option \<times> nat option \<times> go_error option) outcome \<times> event list" where
  "SendRelay e sentry_SendRelay cx privKey url req connectionType =
     (case ParseMsg e url req connectionType of
        Inl err \<Rightarrow> (Returns (None, None, Some err), [])
      | Inr nodeMsg \<Rightarrow>
      (case GetSession e cx (ComputeUnits (GetServiceApi nodeMsg)) of
        Inl err \<Rightarrow> (Returns (None, None, Some err), [])
      | Inr (consumerSession, epoch, providerPublicAddress, reportedProviders) \<Rightarrow>
        (let cap = make_captured cx privKey url req connectionType nodeMsg epoch
                     providerPublicAddress
         in case sentry_SendRelay cx consumerSession reportedProviders epoch
                   providerPublicAddress (callback_send_relay e cap)
                   (callback_send_reliability e cap) (Category (GetServiceApi nodeMsg))
                   initial_state of
              (NilPanic, st) \<Rightarrow> (NilPanic, trace st)
            | (Returns ((None, replyServer, err), consumerSession1), st) \<Rightarrow>
                (NilPanic, trace st)
            | (Returns ((Some reply, replyServer, err), consumerSession1), st) \<Rightarrow>
                (Returns (Some reply, replyServer, err),
                 trace st @ [OnSessionDone_call consumerSession1 epoch (LatestBlock reply)]))))"

text \<open>
  Modelled from the spec: the orchestrating layer \<open>cp.GetSentry().SendRelay\<close>,
  whose code is missing from the sources. It runs the primary callback; when that
  fails the attempt is reported as failed and no reply is returned. When the
  primary relay succeeded and a reliability check is engaged (\<open>reliability\<close>
  holds the second session and the VRF payload the sentry chose), it runs the
  reliability callback, whose failure does not invalidate the primary reply.
\<close>

definition sentry_SendRelay ::
  "(SingleConsumerSession \<times> VRFData option) option \<Rightarrow> orchestrator" where
  "sentry_SendRelay reliability cx consumerSession reportedProviders epoch
      providerPublicAddress cb_send_relay cb_send_reliability specCategory st =
     (case cb_send_relay consumerSession reportedProviders st of
        (Inl err, consumerSession1, st1) \<Rightarrow>
          (Returns ((None, None, Some err), consumerSession1), st1)
      | (Inr (reply, replyServer, request), consumerSession1, st1) \<Rightarrow>
          (case reliability of
             None \<Rightarrow> (Returns ((reply, replyServer, None), consumerSession1), st1)
           | Some (reliabilitySession, dataReliability) \<Rightarrow>
               (case cb_send_reliability reliabilitySession dataReliability
                       reportedProviders st1 of
                  (NilPanic, st2) \<Rightarrow> (NilPanic, st2)
                | (Returns r, st2) \<Rightarrow>
                    (Returns ((reply, replyServer, None), consumerSession1), st2))))"

section \<open>Concrete scenarios\<close>

text \<open>
  A healthy provider and a unary request whose requested block is the hint for the
  latest block (\<open>- 2\<close>), which the example's \<open>UpdateRequestedBlock\<close> replaces
  by the block of the reply. In the example a signature is the name of its signer,
  so recovering a key reads the signature, and an address is written as it is.
\<close>

definition ex_session :: SingleConsumerSession where
  "ex_session =
     \<lparr> sess_SessionId = 7, sess_CuSum = 10, sess_RelayNum = 1,
       QoSInfo = \<lparr> LastQoSReport = None, TotalRelays = 3, AnsweredRelays = 2,
                   ConsecutiveTimeOut = 1 \<rparr>,
       Client_Acc = ''provider'', Endpoint_Client = 0 \<rparr>"

definition ex_msg :: NodeMessage where
  "ex_msg =
     \<lparr> GetServiceApi =
         \<lparr> ComputeUnits = 10, Category = \<lparr> Deterministic = True, Subscription = False \<rparr> \<rparr>,
       RequestedBlock = - 2 \<rparr>"

definition ex_reply :: RelayReply where
  "ex_reply =
     \<lparr> reply_Data = ''0x10'', reply_Sig = ''provider'', LatestBlock = 100,
       reply_SigBlocks = ''provider'' \<rparr>"

definition ex_env :: env where
  "ex_env =
     \<lparr> ParseMsg = (\<lambda>url req connectionType. Inr ex_msg),
       GetSession = (\<lambda>cx cu. Inr (ex_session, 20, ''provider'', [])),
       GetSentry = \<lparr> ApiInterface = ''jsonrpc'', sentry_ChainID = ''LAV1'' \<rparr>,
       GetSpecComparesHashes = False,
       ExpectedBlockHeight = (100, 3),
       GetProvidersCount = 5,
       SignRelay = (\<lambda>privKey r. Inr ''signed''),
       SignVRFData = (\<lambda>privKey v. Inr ''vrf-signed''),
       RecoverPubKeyFromRelayReply = (\<lambda>reply r. Inr (reply_Sig reply)),
       RecoverPubKeyFromResponseFinalizationData = (\<lambda>reply r a. Inr (reply_SigBlocks reply)),
       PubKey_Address_String = (\<lambda>k. k),
       AccAddressFromHex = (\<lambda>h. Inr h),
       AccAddressFromBech32 = (\<lambda>b. Inr b),
       AccAddress_String = (\<lambda>a. a),
       Relay = (\<lambda>c cx r. Inr ex_reply),
       RelaySubscribe = (\<lambda>c cx r. Inr 1),
       UpdateRequestedBlock =
         (\<lambda>r reply. if RequestBlock r = - 2 then r\<lparr>RequestBlock := LatestBlock reply\<rparr> else r),
       CalculateQoS =
         (\<lambda>s cu latency diff n m. s\<lparr>QoSInfo := (QoSInfo s)\<lparr>LastQoSReport := Some ''report''\<rparr>\<rparr>),
       time_Since = 1000 \<rparr>"

definition ex_cap :: captured where
  "ex_cap = make_captured (Ctx 0) ''consumer-key'' ''/url'' ''{}'' ''POST'' ex_msg 20 ''provider''"


definition ex_sub_msg :: NodeMessage where
  "ex_sub_msg =
     \<lparr> GetServiceApi =
         \<lparr> ComputeUnits = 10, Category = \<lparr> Deterministic = False, Subscription = True \<rparr> \<rparr>,
       RequestedBlock = - 2 \<rparr>"

definition ex_sub_cap :: captured where
  "ex_sub_cap =
     make_captured (Ctx 0) ''consumer-key'' ''/ws'' ''{}'' ''POST'' ex_sub_msg 20 ''provider''"

definition ex_vrf :: VRFData where
  "ex_vrf = \<lparr> vrf_material = ''proof'', vrf_Sig = [] \<rparr>"

text \<open>The signing primitives fail.\<close>

definition env_sign_fails :: env where
  "env_sign_fails = ex_env\<lparr>SignRelay := (\<lambda>privKey r. Inl (GoError ''invalid key''))\<rparr>"

definition env_vrf_sign_fails :: env where
  "env_vrf_sign_fails = ex_env\<lparr>SignVRFData := (\<lambda>privKey v. Inl (GoError ''invalid key''))\<rparr>"

text \<open>The transport fails: the deadline passes, or the connection is refused.\<close>

definition env_timeout :: env where
  "env_timeout = ex_env\<lparr>Relay := (\<lambda>c cx r. Inl (GoError ''context deadline exceeded''))\<rparr>"

definition env_refused :: env where
  "env_refused = ex_env\<lparr>Relay := (\<lambda>c cx r. Inl (GoError ''connection refused''))\<rparr>"

text \<open>The provider answers with a reply that somebody else signed.\<close>

definition env_wrong_key :: env where
  "env_wrong_key =
     ex_env\<lparr>Relay := (\<lambda>c cx r. Inr (ex_reply\<lparr>reply_Sig := ''intruder''\<rparr>))\<rparr>"

text \<open>
  Hash comparison is on, and the finalization data of the reply was signed by the
  provider with the provider's own address as the binding context: the provider's
  key is recovered under that address, and a foreign key under any other address.
\<close>

definition env_bound_to_provider :: env where
  "env_bound_to_provider =
     ex_env\<lparr>GetSpecComparesHashes := True,
            RecoverPubKeyFromResponseFinalizationData :=
              (\<lambda>reply r a. if a = ''provider'' then Inr ''provider'' else Inr ''foreign'')\<rparr>"

text \<open>Hash comparison is on, and the finalization data was signed by somebody else.\<close>

definition env_sigblocks_mismatch :: env where
  "env_sigblocks_mismatch =
     ex_env\<lparr>GetSpecComparesHashes := True,
            RecoverPubKeyFromResponseFinalizationData := (\<lambda>reply r a. Inr ''intruder'')\<rparr>"

text \<open>A session whose two relay counters hold the largest uint64.\<close>

definition ex_session_full :: SingleConsumerSession where
  "ex_session_full =
     ex_session\<lparr>QoSInfo := \<lparr> LastQoSReport = None, TotalRelays = - 1, AnsweredRelays = - 1,
                              ConsecutiveTimeOut = 0 \<rparr>\<rparr>"

lemmas ex_defs =
  ex_env_def ex_cap_def ex_sub_cap_def ex_session_def ex_msg_def ex_sub_msg_def ex_reply_def
  ex_vrf_def make_captured_def env_sign_fails_def env_vrf_sign_fails_def env_timeout_def
  env_refused_def env_wrong_key_def env_bound_to_provider_def env_sigblocks_mismatch_def
  ex_session_full_def

section \<open>The paths through callback_send_relay\<close>

lemma relay_sign_failed:
  assumes "SignRelay e (c_privKey cap) (primary_request e cap s u (c_epoch cap)) = Inl err"
  shows "callback_send_relay e cap s u st =
           (Inl err, s,
            st\<lparr>blockHeight := c_epoch cap,
               trace := trace st @
                 [SignRelay_call (c_privKey cap) (primary_request e cap s u (c_epoch cap))]\<rparr>)"
  using assms by (simp add: callback_send_relay_def emit_def)

lemma relay_unary:
  assumes "SignRelay e (c_privKey cap) (primary_request e cap s u (c_epoch cap)) = Inr sig"
    and "\<not> c_isSubscription cap"
  shows "callback_send_relay e cap s u st =
           (case Relay e (Endpoint_Client s) (WithTimeout (c_ctx cap) DefaultTimeout)
                   ((primary_request e cap s u (c_epoch cap))\<lparr>Sig := sig\<rparr>) of
              Inl err \<Rightarrow>
                send_failed err
                  (s\<lparr>QoSInfo := (QoSInfo s)\<lparr>TotalRelays := TotalRelays (QoSInfo s) + 1\<rparr>\<rparr>)
                  (st\<lparr>blockHeight := c_epoch cap,
                      trace := trace st @
                        [SignRelay_call (c_privKey cap) (primary_request e cap s u (c_epoch cap)),
                         Relay_call (Endpoint_Client s) (WithTimeout (c_ctx cap) DefaultTimeout)
                           ((primary_request e cap s u (c_epoch cap))\<lparr>Sig := sig\<rparr>)]\<rparr>)
            | Inr reply \<Rightarrow>
                relay_answered e cap reply
                  ((primary_request e cap s u (c_epoch cap))\<lparr>Sig := sig\<rparr>)
                  (s\<lparr>QoSInfo := (QoSInfo s)\<lparr>TotalRelays := TotalRelays (QoSInfo s) + 1\<rparr>\<rparr>)
                  (st\<lparr>blockHeight := c_epoch cap,
                      trace := trace st @
                        [SignRelay_call (c_privKey cap) (primary_request e cap s u (c_epoch cap)),
                         Relay_call (Endpoint_Client s) (WithTimeout (c_ctx cap) DefaultTimeout)
                           ((primary_request e cap s u (c_epoch cap))\<lparr>Sig := sig\<rparr>)]\<rparr>))"
  using assms by (simp add: callback_send_relay_def emit_def Let_def split: sum.splits)

lemma relay_subscription:
  assumes "SignRelay e (c_privKey cap) (primary_request e cap s u (c_epoch cap)) = Inr sig"
    and "c_isSubscription cap"
  shows "callback_send_relay e cap s u st =
           (case RelaySubscribe e (Endpoint_Client s) (c_ctx cap)
                   ((primary_request e cap s u (c_epoch cap))\<lparr>Sig := sig\<rparr>) of
              Inl err \<Rightarrow>
                send_failed err
                  (s\<lparr>QoSInfo := (QoSInfo s)\<lparr>TotalRelays := TotalRelays (QoSInfo s) + 1\<rparr>\<rparr>)
                  (st\<lparr>blockHeight := c_epoch cap,
                      trace := trace st @
                        [SignRelay_call (c_privKey cap) (primary_request e cap s u (c_epoch cap)),
                         RelaySubscribe_call (Endpoint_Client s) (c_ctx cap)
                           ((primary_request e cap s u (c_epoch cap))\<lparr>Sig := sig\<rparr>)]\<rparr>)
            | Inr replyServer \<Rightarrow>
                (Inr (None, Some replyServer,
                      (primary_request e cap s u (c_epoch cap))\<lparr>Sig := sig\<rparr>),
                 s\<lparr>QoSInfo := (QoSInfo s)\<lparr>TotalRelays := TotalRelays (QoSInfo s) + 1\<rparr>\<rparr>,
                 st\<lparr>blockHeight := c_epoch cap,
                     trace := trace st @
                       [SignRelay_call (c_privKey cap) (primary_request e cap s u (c_epoch cap)),
                        RelaySubscribe_call (Endpoint_Client s) (c_ctx cap)
                          ((primary_request e cap s u (c_epoch cap))\<lparr>Sig := sig\<rparr>)]\<rparr>))"
  using assms by (simp add: callback_send_relay_def emit_def Let_def split: sum.splits)

lemma send_failed_result [simp]: "fst (send_failed err s st) = Inl err"
  by (simp add: send_failed_def)

lemma send_failed_state [simp]: "snd (snd (send_failed err s st)) = st"
  by (simp add: send_failed_def)

lemma send_failed_session:
  "fst (snd (send_failed err s st)) =
     (if Error err = DeadlineExceeded_Error
      then s\<lparr>QoSInfo := (QoSInfo s)\<lparr>ConsecutiveTimeOut := ConsecutiveTimeOut (QoSInfo s) + 1\<rparr>\<rparr>
      else s)"
  by (simp add: send_failed_def)

lemma relay_answered_state [simp]:
  "snd (snd (relay_answered e cap reply rq s st)) =
     st\<lparr>requestedBlock := RequestBlock (UpdateRequestedBlock e rq reply)\<rparr>"
  by (simp add: relay_answered_def Let_def split: option.splits)

lemma relay_answered_rejected:
  assumes "VerifyRelayReply e reply (UpdateRequestedBlock e rq reply) (Client_Acc s)
             (GetSpecComparesHashes e) = Some err"
  shows "relay_answered e cap reply rq s st =
           (Inl err,
            s\<lparr>QoSInfo := (QoSInfo s)\<lparr>ConsecutiveTimeOut := 0,
                 AnsweredRelays := AnsweredRelays (QoSInfo s) + 1\<rparr>\<rparr>,
            st\<lparr>requestedBlock := RequestBlock (UpdateRequestedBlock e rq reply)\<rparr>)"
  using assms by (simp add: relay_answered_def Let_def)

lemma relay_answered_accepted:
  assumes "VerifyRelayReply e reply (UpdateRequestedBlock e rq reply) (Client_Acc s)
             (GetSpecComparesHashes e) = None"
  shows "relay_answered e cap reply rq s st =
           (Inr (Some reply, None, UpdateRequestedBlock e rq reply),
            CalculateQoS e
              (s\<lparr>QoSInfo := (QoSInfo s)\<lparr>ConsecutiveTimeOut := 0,
                   AnsweredRelays := AnsweredRelays (QoSInfo s) + 1\<rparr>\<rparr>)
              (ComputeUnits (GetServiceApi (c_nodeMsg cap))) (time_Since e)
              (fst (ExpectedBlockHeight e) - LatestBlock reply) (snd (ExpectedBlockHeight e))
              (GetProvidersCount e),
            st\<lparr>requestedBlock := RequestBlock (UpdateRequestedBlock e rq reply)\<rparr>)"
  using assms by (simp add: relay_answered_def Let_def)


section \<open>GetChainProxy: the supported interfaces\<close>

text \<open>
  C8. \<open>GetChainProxy\<close> returns a proxy and a nil error exactly when the selector
  \<open>sentry.ApiInterface\<close> is one of jsonrpc, tendermintrpc and rest; for every
  other selector it returns a nil proxy and the error whose message names the selector.
\<close>

theorem GetChainProxy_selector:
  "((\<exists>p. GetChainProxy nodeUrl nConns sentry = (Some p, None))
      = (ApiInterface sentry \<in> {''jsonrpc'', ''tendermintrpc'', ''rest''}))
   \<and> (ApiInterface sentry \<notin> {''jsonrpc'', ''tendermintrpc'', ''rest''} \<longrightarrow>
        GetChainProxy nodeUrl nConns sentry =
          (None, Some (GoError (''chain proxy for apiInterface ('' @ ApiInterface sentry
                                  @ '') not found''))))"
  by (simp add: GetChainProxy_def)

theorem GetChainProxy_selector_witness:
  "GetChainProxy ''http://node'' 4 \<lparr>ApiInterface = ''grpc'', sentry_ChainID = ''LAV1''\<rparr> =
     (None, Some (GoError ''chain proxy for apiInterface (grpc) not found''))
   \<and> \<not> (\<exists>p. GetChainProxy ''http://node'' 4
               \<lparr>ApiInterface = ''grpc'', sentry_ChainID = ''LAV1''\<rparr> = (Some p, None))
   \<and> (\<exists>p. GetChainProxy ''http://node'' 4
               \<lparr>ApiInterface = ''rest'', sentry_ChainID = ''LAV1''\<rparr> = (Some p, None))"
  using GetChainProxy_selector
          [of "''http://node''" 4 "\<lparr>ApiInterface = ''grpc'', sentry_ChainID = ''LAV1''\<rparr>"]
        GetChainProxy_selector
          [of "''http://node''" 4 "\<lparr>ApiInterface = ''rest'', sentry_ChainID = ''LAV1''\<rparr>"]
  by simp

section \<open>The reliability callback before the primary one\<close>

text \<open>
  C9. While the shared \<open>blockHeight\<close> is negative, as it is before
  \<open>callback_send_relay\<close> has run (it starts at \<open>- 1\<close>),
  \<open>callback_send_reliability\<close> returns its error and leaves the state as it
  was: the trace gains no call, so nothing was signed and nothing was sent.
\<close>

theorem reliability_before_relay:
  "blockHeight st <s 0 \<Longrightarrow>
     callback_send_reliability e cap consumerSession dataReliability unresponsiveProviders st
       = (Returns (Inl blockHeight_not_set), st)"
  by (simp add: callback_send_reliability_def)

theorem reliability_before_relay_witness:
  "blockHeight initial_state = - 1 \<and> blockHeight initial_state <s 0
   \<and> callback_send_reliability ex_env ex_cap ex_session (Some ex_vrf) [] initial_state
       = (Returns (Inl (GoError
            ''expected callback_send_relay to be called first and set blockHeight'')),
          initial_state)
   \<and> trace (snd (callback_send_reliability ex_env ex_cap ex_session (Some ex_vrf) []
                    initial_state)) = []"
  using reliability_before_relay [of initial_state ex_env ex_cap ex_session "Some ex_vrf" "[]"]
  by (simp add: initial_state_def blockHeight_not_set_def word_sless_alt)

section \<open>A signing failure sends nothing\<close>

text \<open>
  C6. When \<open>SignRelay\<close> fails on the primary request, \<open>callback_send_relay\<close>
  returns that error; when \<open>SignRelay\<close> or \<open>SignVRFData\<close> fails on the
  reliability request, \<open>callback_send_reliability\<close> returns that error (it has
  passed its guard on \<open>blockHeight\<close>). In each case the trace holds the same
  transport sends after the callback as before it: no request was sent.
\<close>

theorem signing_failure_sends_nothing:
  "(SignRelay e (c_privKey cap) (primary_request e cap s u (c_epoch cap)) = Inl err \<longrightarrow>
      fst (callback_send_relay e cap s u st) = Inl err
      \<and> filter is_send (trace (snd (snd (callback_send_relay e cap s u st))))
          = filter is_send (trace st))
   \<and> (\<not> blockHeight st <s 0
        \<and> SignRelay e (c_privKey cap) (reliability_request e cap s dataReliability u st) = Inl err \<longrightarrow>
      fst (callback_send_reliability e cap s dataReliability u st) = Returns (Inl err)
      \<and> filter is_send (trace (snd (callback_send_reliability e cap s dataReliability u st)))
          = filter is_send (trace st))
   \<and> (\<not> blockHeight st <s 0
        \<and> SignRelay e (c_privKey cap) (reliability_request e cap s dataReliability u st) = Inr sig
        \<and> SignVRFData e (c_privKey cap) dataReliability = Inl err \<longrightarrow>
      fst (callback_send_reliability e cap s dataReliability u st) = Returns (Inl err)
      \<and> filter is_send (trace (snd (callback_send_reliability e cap s dataReliability u st)))
          = filter is_send (trace st))"
proof (intro conjI impI)
  assume a: "SignRelay e (c_privKey cap) (primary_request e cap s u (c_epoch cap)) = Inl err"
  show "fst (callback_send_relay e cap s u st) = Inl err"
    by (simp add: relay_sign_failed [OF a])
  show "filter is_send (trace (snd (snd (callback_send_relay e cap s u st))))
          = filter is_send (trace st)"
    by (simp add: relay_sign_failed [OF a])
next
  assume a: "\<not> blockHeight st <s 0
        \<and> SignRelay e (c_privKey cap) (reliability_request e cap s dataReliability u st) = Inl err"
  then show "fst (callback_send_reliability e cap s dataReliability u st) = Returns (Inl err)"
    by (simp add: callback_send_reliability_def emit_def)
  from a show "filter is_send (trace (snd (callback_send_reliability e cap s dataReliability u st)))
          = filter is_send (trace st)"
    by (simp add: callback_send_reliability_def emit_def)
next
  assume a: "\<not> blockHeight st <s 0
        \<and> SignRelay e (c_privKey cap) (reliability_request e cap s dataReliability u st) = Inr sig
        \<and> SignVRFData e (c_privKey cap) dataReliability = Inl err"
  have d: "DataReliability ((reliability_request e cap s dataReliability u st)\<lparr>Sig := sig\<rparr>)
             = dataReliability"
    by (simp add: reliability_request_def)
  from a d show "fst (callback_send_reliability e cap s dataReliability u st) = Returns (Inl err)"
    by (simp add: callback_send_reliability_def emit_def Let_def)
  from a d show "filter is_send (trace (snd (callback_send_reliability e cap s dataReliability u st)))
          = filter is_send (trace st)"
    by (simp add: callback_send_reliability_def emit_def Let_def)
qed

theorem signing_failure_sends_nothing_witness:
  "callback_send_relay env_sign_fails ex_cap ex_session [] initial_state =
     (Inl (GoError ''invalid key''), ex_session,
      \<lparr> blockHeight = 20, requestedBlock = 0,
        trace = [SignRelay_call ''consumer-key''
                   (primary_request env_sign_fails ex_cap ex_session [] 20)] \<rparr>)
   \<and> fst (callback_send_reliability env_sign_fails ex_cap ex_session (Some ex_vrf) []
             (initial_state\<lparr>blockHeight := 20\<rparr>)) = Returns (Inl (GoError ''invalid key''))
   \<and> filter is_send (trace (snd (callback_send_reliability env_sign_fails ex_cap ex_session
        (Some ex_vrf) [] (initial_state\<lparr>blockHeight := 20\<rparr>)))) = []
   \<and> fst (callback_send_reliability env_vrf_sign_fails ex_cap ex_session (Some ex_vrf) []
             (initial_state\<lparr>blockHeight := 20\<rparr>)) = Returns (Inl (GoError ''invalid key''))
   \<and> filter is_send (trace (snd (callback_send_reliability env_vrf_sign_fails ex_cap ex_session
        (Some ex_vrf) [] (initial_state\<lparr>blockHeight := 20\<rparr>)))) = []"
proof -
  have h1: "SignRelay env_sign_fails (c_privKey ex_cap)
              (primary_request env_sign_fails ex_cap ex_session [] (c_epoch ex_cap))
            = Inl (GoError ''invalid key'')"
    by (simp add: ex_defs)
  have h2: "\<not> blockHeight (initial_state\<lparr>blockHeight := 20\<rparr>) <s 0
            \<and> SignRelay env_sign_fails (c_privKey ex_cap)
                (reliability_request env_sign_fails ex_cap ex_session (Some ex_vrf) []
                   (initial_state\<lparr>blockHeight := 20\<rparr>)) = Inl (GoError ''invalid key'')"
    by (simp add: ex_defs word_sless_alt)
  have h3: "\<not> blockHeight (initial_state\<lparr>blockHeight := 20\<rparr>) <s 0
            \<and> SignRelay env_vrf_sign_fails (c_privKey ex_cap)
                (reliability_request env_vrf_sign_fails ex_cap ex_session (Some ex_vrf) []
                   (initial_state\<lparr>blockHeight := 20\<rparr>)) = Inr ''signed''
            \<and> SignVRFData env_vrf_sign_fails (c_privKey ex_cap) (Some ex_vrf)
                = Inl (GoError ''invalid key'')"
    by (simp add: ex_defs word_sless_alt)
  note t1 = signing_failure_sends_nothing
              [of env_sign_fails ex_cap ex_session "[]" "GoError ''invalid key''" initial_state
                  "Some ex_vrf" "''signed''", THEN conjunct1, rule_format, OF h1]
  note t2 = signing_failure_sends_nothing
              [of env_sign_fails ex_cap ex_session "[]" "GoError ''invalid key''"
                  "initial_state\<lparr>blockHeight := 20\<rparr>" "Some ex_vrf" "''signed''",
               THEN conjunct2, THEN conjunct1, rule_format, OF h2]
  note t3 = signing_failure_sends_nothing
              [of env_vrf_sign_fails ex_cap ex_session "[]" "GoError ''invalid key''"
                  "initial_state\<lparr>blockHeight := 20\<rparr>" "Some ex_vrf" "''signed''",
               THEN conjunct2, THEN conjunct2, rule_format, OF h3]
  have c1: "callback_send_relay env_sign_fails ex_cap ex_session [] initial_state =
     (Inl (GoError ''invalid key''), ex_session,
      \<lparr> blockHeight = 20, requestedBlock = 0,
        trace = [SignRelay_call ''consumer-key''
                   (primary_request env_sign_fails ex_cap ex_session [] 20)] \<rparr>)"
    using t1 by (simp add: relay_sign_failed [OF h1] initial_state_def) (simp add: ex_defs)
  from c1 t2 t3 show ?thesis by (simp add: initial_state_def)
qed

section \<open>The context of the primary send\<close>

text \<open>
  C7. Once the primary request is signed, \<open>callback_send_relay\<close> makes exactly
  one transport send. For a message that is not a subscription it is \<open>Relay\<close>
  under \<open>context.WithTimeout(ctx, DefaultTimeout)\<close>, five seconds in nanoseconds;
  for a subscription it is \<open>RelaySubscribe\<close> under the caller's own context.
\<close>

theorem primary_send_context:
  assumes "SignRelay e privKey
             (primary_request e
                (make_captured cx privKey url req connectionType nodeMsg epoch provider) s u epoch)
           = Inr sig"
  shows "DefaultTimeout = 5 * 1000000000
    \<and> filter is_send (trace (snd (snd (callback_send_relay e
          (make_captured cx privKey url req connectionType nodeMsg epoch provider) s u st))))
      = filter is_send (trace st) @
         [if Subscription (Category (GetServiceApi nodeMsg))
          then RelaySubscribe_call (Endpoint_Client s) cx
                 ((primary_request e
                     (make_captured cx privKey url req connectionType nodeMsg epoch provider)
                     s u epoch)\<lparr>Sig := sig\<rparr>)
          else Relay_call (Endpoint_Client s) (WithTimeout cx DefaultTimeout)
                 ((primary_request e
                     (make_captured cx privKey url req connectionType nodeMsg epoch provider)
                     s u epoch)\<lparr>Sig := sig\<rparr>)]"
proof -
  let ?cap = "make_captured cx privKey url req connectionType nodeMsg epoch provider"
  have sel: "c_privKey ?cap = privKey" "c_epoch ?cap = epoch" "c_ctx ?cap = cx"
    "c_isSubscription ?cap = Subscription (Category (GetServiceApi nodeMsg))"
    by (simp_all add: make_captured_def)
  have sign: "SignRelay e (c_privKey ?cap) (primary_request e ?cap s u (c_epoch ?cap)) = Inr sig"
    using assms by (simp add: sel)
  have d: "DefaultTimeout = 5 * 1000000000"
    by (simp add: DefaultTimeout_def Second_def)
  show ?thesis
  proof (cases "Subscription (Category (GetServiceApi nodeMsg))")
    case True
    then have sub: "c_isSubscription ?cap" by (simp add: sel)
    show ?thesis
      using True d
      by (simp add: relay_subscription [OF sign sub] sel split: sum.splits)
  next
    case False
    then have un: "\<not> c_isSubscription ?cap" by (simp add: sel)
    show ?thesis
      using False d
      by (simp add: relay_unary [OF sign un] sel split: sum.splits)
  qed
qed

theorem primary_send_context_witness:
  "filter is_send (trace (snd (snd (callback_send_relay ex_env ex_cap ex_session []
       initial_state))))
     = [Relay_call 0 (WithTimeout (Ctx 0) 5000000000)
          ((primary_request ex_env ex_cap ex_session [] 20)\<lparr>Sig := ''signed''\<rparr>)]
   \<and> filter is_send (trace (snd (snd (callback_send_relay ex_env ex_sub_cap ex_session []
       initial_state))))
     = [RelaySubscribe_call 0 (Ctx 0)
          ((primary_request ex_env ex_sub_cap ex_session [] 20)\<lparr>Sig := ''signed''\<rparr>)]"
proof -
  have h1: "SignRelay ex_env ''consumer-key''
              (primary_request ex_env
                 (make_captured (Ctx 0) ''consumer-key'' ''/url'' ''{}'' ''POST'' ex_msg 20
                    ''provider'') ex_session [] 20) = Inr ''signed''"
    by (simp add: ex_env_def)
  have h2: "SignRelay ex_env ''consumer-key''
              (primary_request ex_env
                 (make_captured (Ctx 0) ''consumer-key'' ''/ws'' ''{}'' ''POST'' ex_sub_msg 20
                    ''provider'') ex_session [] 20) = Inr ''signed''"
    by (simp add: ex_env_def)
  show ?thesis
    using primary_send_context [OF h1, of initial_state]
          primary_send_context [OF h2, of initial_state]
    by (simp add: ex_cap_def ex_sub_cap_def ex_msg_def ex_sub_msg_def ex_session_def
          initial_state_def)
qed

section \<open>The consecutive-timeout counter\<close>

text \<open>
  C5. Provided \<open>CalculateQoS\<close> leaves the counter alone, the value of
  \<open>QoSInfo.ConsecutiveTimeOut\<close> after \<open>callback_send_relay\<close> is: unchanged
  when signing fails; zero when a unary relay is answered, whether or not the reply
  then passes verification; one more than before when the transport send (unary or
  subscription) fails with an error whose message is that of
  \<open>context.DeadlineExceeded\<close>; unchanged for every other transport error and
  for an opened subscription.
\<close>

theorem ConsecutiveTimeOut_reset_and_increment:
  assumes frame: "\<And>s' cu latency diff n m.
      ConsecutiveTimeOut (QoSInfo (CalculateQoS e s' cu latency diff n m))
        = ConsecutiveTimeOut (QoSInfo s')"
  shows "(\<forall>err. SignRelay e (c_privKey cap) (primary_request e cap s u (c_epoch cap)) = Inl err \<longrightarrow>
            ConsecutiveTimeOut (QoSInfo (fst (snd (callback_send_relay e cap s u st))))
              = ConsecutiveTimeOut (QoSInfo s))
    \<and> (\<forall>sig. SignRelay e (c_privKey cap) (primary_request e cap s u (c_epoch cap)) = Inr sig \<longrightarrow>
          ConsecutiveTimeOut (QoSInfo (fst (snd (callback_send_relay e cap s u st)))) =
            (if c_isSubscription cap then
               (case RelaySubscribe e (Endpoint_Client s) (c_ctx cap)
                       ((primary_request e cap s u (c_epoch cap))\<lparr>Sig := sig\<rparr>) of
                  Inl err \<Rightarrow>
                    if Error err = DeadlineExceeded_Error
                    then ConsecutiveTimeOut (QoSInfo s) + 1 else ConsecutiveTimeOut (QoSInfo s)
                | Inr replyServer \<Rightarrow> ConsecutiveTimeOut (QoSInfo s))
             else
               (case Relay e (Endpoint_Client s) (WithTimeout (c_ctx cap) DefaultTimeout)
                       ((primary_request e cap s u (c_epoch cap))\<lparr>Sig := sig\<rparr>) of
                  Inl err \<Rightarrow>
                    if Error err = DeadlineExceeded_Error
                    then ConsecutiveTimeOut (QoSInfo s) + 1 else ConsecutiveTimeOut (QoSInfo s)
                | Inr reply \<Rightarrow> 0)))"
proof (intro conjI allI impI)
  fix err
  assume a: "SignRelay e (c_privKey cap) (primary_request e cap s u (c_epoch cap)) = Inl err"
  show "ConsecutiveTimeOut (QoSInfo (fst (snd (callback_send_relay e cap s u st))))
          = ConsecutiveTimeOut (QoSInfo s)"
    by (simp add: relay_sign_failed [OF a])
next
  fix sig
  assume a: "SignRelay e (c_privKey cap) (primary_request e cap s u (c_epoch cap)) = Inr sig"
  let ?rq = "(primary_request e cap s u (c_epoch cap))\<lparr>Sig := sig\<rparr>"
  have ans: "ConsecutiveTimeOut (QoSInfo (fst (snd (relay_answered e cap reply ?rq s1 st1)))) = 0"
    for reply s1 st1
    by (simp add: relay_answered_def Let_def frame split: option.splits)
  show "ConsecutiveTimeOut (QoSInfo (fst (snd (callback_send_relay e cap s u st)))) =
            (if c_isSubscription cap then
               (case RelaySubscribe e (Endpoint_Client s) (c_ctx cap) ?rq of
                  Inl err \<Rightarrow>
                    if Error err = DeadlineExceeded_Error
                    then ConsecutiveTimeOut (QoSInfo s) + 1 else ConsecutiveTimeOut (QoSInfo s)
                | Inr replyServer \<Rightarrow> ConsecutiveTimeOut (QoSInfo s))
             else
               (case Relay e (Endpoint_Client s) (WithTimeout (c_ctx cap) DefaultTimeout) ?rq of
                  Inl err \<Rightarrow>
                    if Error err = DeadlineExceeded_Error
                    then ConsecutiveTimeOut (QoSInfo s) + 1 else ConsecutiveTimeOut (QoSInfo s)
                | Inr reply \<Rightarrow> 0))"
  proof (cases "c_isSubscription cap")
    case True
    show ?thesis
      using True
      by (simp add: relay_subscription [OF a True] send_failed_session split: sum.splits)
  next
    case False
    show ?thesis
      using False
      by (simp add: relay_unary [OF a False] send_failed_session ans split: sum.splits)
  qed
qed

theorem ConsecutiveTimeOut_reset_and_increment_witness:
  "ConsecutiveTimeOut (QoSInfo ex_session) = 1
   \<and> ConsecutiveTimeOut (QoSInfo (fst (snd
        (callback_send_relay ex_env ex_cap ex_session [] initial_state)))) = 0
   \<and> ConsecutiveTimeOut (QoSInfo (fst (snd
        (callback_send_relay env_wrong_key ex_cap ex_session [] initial_state)))) = 0
   \<and> ConsecutiveTimeOut (QoSInfo (fst (snd
        (callback_send_relay env_timeout ex_cap ex_session [] initial_state)))) = 2
   \<and> ConsecutiveTimeOut (QoSInfo (fst (snd
        (callback_send_relay env_refused ex_cap ex_session [] initial_state)))) = 1
   \<and> ConsecutiveTimeOut (QoSInfo (fst (snd
        (callback_send_relay env_sign_fails ex_cap ex_session [] initial_state)))) = 1"
proof -
  have f: "ConsecutiveTimeOut (QoSInfo (CalculateQoS e s' cu latency diff n m))
             = ConsecutiveTimeOut (QoSInfo s')"
    if "CalculateQoS e = CalculateQoS ex_env" for e s' cu latency diff n m
    using that by (simp add: ex_env_def)
  have e1: "CalculateQoS env_wrong_key = CalculateQoS ex_env"
    and e2: "CalculateQoS env_timeout = CalculateQoS ex_env"
    and e3: "CalculateQoS env_refused = CalculateQoS ex_env"
    and e4: "CalculateQoS env_sign_fails = CalculateQoS ex_env"
    by (simp_all add: env_wrong_key_def env_timeout_def env_refused_def env_sign_fails_def)
  note t0 = ConsecutiveTimeOut_reset_and_increment
              [of ex_env ex_cap ex_session "[]" initial_state, OF f [OF refl]]
  note t1 = ConsecutiveTimeOut_reset_and_increment
              [of env_wrong_key ex_cap ex_session "[]" initial_state, OF f [OF e1]]
  note t2 = ConsecutiveTimeOut_reset_and_increment
              [of env_timeout ex_cap ex_session "[]" initial_state, OF f [OF e2]]
  note t3 = ConsecutiveTimeOut_reset_and_increment
              [of env_refused ex_cap ex_session "[]" initial_state, OF f [OF e3]]
  note t4 = ConsecutiveTimeOut_reset_and_increment
              [of env_sign_fails ex_cap ex_session "[]" initial_state, OF f [OF e4]]
  have c0: "ConsecutiveTimeOut (QoSInfo ex_session) = 1"
    by (simp add: ex_session_def)
  have c1: "ConsecutiveTimeOut (QoSInfo (fst (snd
        (callback_send_relay ex_env ex_cap ex_session [] initial_state)))) = 0"
    using t0 by (simp add: ex_defs)
  have c2: "ConsecutiveTimeOut (QoSInfo (fst (snd
        (callback_send_relay env_wrong_key ex_cap ex_session [] initial_state)))) = 0"
    using t1 by (simp add: ex_defs)
  have c3: "ConsecutiveTimeOut (QoSInfo (fst (snd
        (callback_send_relay env_timeout ex_cap ex_session [] initial_state)))) = 2"
    using t2 by (simp add: ex_defs DeadlineExceeded_Error_def)
  have c4: "ConsecutiveTimeOut (QoSInfo (fst (snd
        (callback_send_relay env_refused ex_cap ex_session [] initial_state)))) = 1"
    using t3 by (simp add: ex_defs DeadlineExceeded_Error_def)
  have c5: "ConsecutiveTimeOut (QoSInfo (fst (snd
        (callback_send_relay env_sign_fails ex_cap ex_session [] initial_state)))) = 1"
    using t4 by (simp add: ex_defs)
  from c0 c1 c2 c3 c4 c5 show ?thesis by simp
qed

section \<open>The relay counters\<close>

text \<open>Incrementing a uint64 that has not reached its largest value keeps the order.\<close>

lemma word_inc_le:
  fixes a t :: "64 word"
  assumes "a \<le> t" and "unat t + 1 < 2 ^ 64"
  shows "a \<le> t + 1"
proof -
  have "unat (t + 1) = unat t + 1"
    using assms(2) by (simp add: unat_add_lem [THEN iffD1])
  then show ?thesis using assms(1) by (simp add: word_le_nat_alt)
qed

lemma word_inc_mono:
  fixes a t :: "64 word"
  assumes "a \<le> t" and "unat t + 1 < 2 ^ 64"
  shows "a + 1 \<le> t + 1"
proof -
  have t: "unat (t + 1) = unat t + 1"
    using assms(2) by (simp add: unat_add_lem [THEN iffD1])
  have le: "unat a \<le> unat t" using assms(1) by (simp add: word_le_nat_alt)
  then have "unat a + unat (1 :: 64 word) < 2 ^ LENGTH(64)" using assms(2) by simp
  then have a: "unat (a + 1) = unat a + 1"
    by (simp add: unat_add_lem [THEN iffD1])
  show ?thesis using t a le by (simp add: word_le_nat_alt)
qed

text \<open>
  C10, as stated, fails where \<open>TotalRelays\<close> wraps around: from a session whose
  two counters both hold the largest uint64, so that the invariant holds, a send
  that the transport refuses leaves \<open>TotalRelays\<close> at zero, below
  \<open>AnsweredRelays\<close>.
\<close>

theorem TotalRelays_wraps_below_AnsweredRelays:
  "AnsweredRelays (QoSInfo ex_session_full) \<le> TotalRelays (QoSInfo ex_session_full)
   \<and> TotalRelays (QoSInfo (fst (snd
         (callback_send_relay env_refused ex_cap ex_session_full [] initial_state))))
       < AnsweredRelays (QoSInfo (fst (snd
         (callback_send_relay env_refused ex_cap ex_session_full [] initial_state))))"
  by (simp add: callback_send_relay_def send_failed_def emit_def primary_request_def Let_def
        ex_defs initial_state_def DeadlineExceeded_Error_def word_gt_0)

text \<open>
  C10, amended. Provided \<open>CalculateQoS\<close> leaves both counters alone and
  \<open>TotalRelays\<close> is below the largest uint64, \<open>callback_send_relay\<close> keeps
  \<open>AnsweredRelays \<le> TotalRelays\<close>. \<open>TotalRelays\<close> is one more than before
  whenever the request was signed, so on every send attempt, failed ones included;
  \<open>AnsweredRelays\<close> is one more than before exactly when a unary relay received a
  reply, and unchanged otherwise.
\<close>

theorem relay_counters_invariant:
  assumes frame: "\<And>s' cu latency diff n m.
      TotalRelays (QoSInfo (CalculateQoS e s' cu latency diff n m)) = TotalRelays (QoSInfo s')
      \<and> AnsweredRelays (QoSInfo (CalculateQoS e s' cu latency diff n m))
          = AnsweredRelays (QoSInfo s')"
    and inv: "AnsweredRelays (QoSInfo s) \<le> TotalRelays (QoSInfo s)"
    and nowrap: "unat (TotalRelays (QoSInfo s)) + 1 < 2 ^ 64"
  shows "AnsweredRelays (QoSInfo (fst (snd (callback_send_relay e cap s u st))))
           \<le> TotalRelays (QoSInfo (fst (snd (callback_send_relay e cap s u st))))
    \<and> TotalRelays (QoSInfo (fst (snd (callback_send_relay e cap s u st)))) =
        (case SignRelay e (c_privKey cap) (primary_request e cap s u (c_epoch cap)) of
           Inl err \<Rightarrow> TotalRelays (QoSInfo s)
         | Inr sig \<Rightarrow> TotalRelays (QoSInfo s) + 1)
    \<and> AnsweredRelays (QoSInfo (fst (snd (callback_send_relay e cap s u st)))) =
        (case SignRelay e (c_privKey cap) (primary_request e cap s u (c_epoch cap)) of
           Inl err \<Rightarrow> AnsweredRelays (QoSInfo s)
         | Inr sig \<Rightarrow>
             if c_isSubscription cap then AnsweredRelays (QoSInfo s)
             else
               (case Relay e (Endpoint_Client s) (WithTimeout (c_ctx cap) DefaultTimeout)
                       ((primary_request e cap s u (c_epoch cap))\<lparr>Sig := sig\<rparr>) of
                  Inl err \<Rightarrow> AnsweredRelays (QoSInfo s)
                | Inr reply \<Rightarrow> AnsweredRelays (QoSInfo s) + 1))"
proof (cases "SignRelay e (c_privKey cap) (primary_request e cap s u (c_epoch cap))")
  case (Inl err)
  show ?thesis
    using inv by (simp add: relay_sign_failed [OF Inl] Inl)
next
  case (Inr sig)
  let ?rq = "(primary_request e cap s u (c_epoch cap))\<lparr>Sig := sig\<rparr>"
  note m = word_inc_le [OF inv nowrap] word_inc_mono [OF inv nowrap]
  have ansT: "TotalRelays (QoSInfo (fst (snd (relay_answered e cap reply ?rq s1 st1))))
                = TotalRelays (QoSInfo s1)"
    and ansA: "AnsweredRelays (QoSInfo (fst (snd (relay_answered e cap reply ?rq s1 st1))))
                = AnsweredRelays (QoSInfo s1) + 1"
    for reply s1 st1
    by (simp_all add: relay_answered_def Let_def frame split: option.splits)
  show ?thesis
  proof (cases "c_isSubscription cap")
    case True
    show ?thesis
      using True m
      by (simp add: relay_subscription [OF Inr True] Inr send_failed_session split: sum.splits)
  next
    case False
    show ?thesis
      using False m
      by (simp add: relay_unary [OF Inr False] Inr send_failed_session ansT ansA
            split: sum.splits)
  qed
qed

theorem relay_counters_invariant_witness:
  "AnsweredRelays (QoSInfo ex_session) = 2 \<and> TotalRelays (QoSInfo ex_session) = 3
   \<and> AnsweredRelays (QoSInfo (fst (snd
        (callback_send_relay ex_env ex_cap ex_session [] initial_state)))) = 3
   \<and> TotalRelays (QoSInfo (fst (snd
        (callback_send_relay ex_env ex_cap ex_session [] initial_state)))) = 4
   \<and> AnsweredRelays (QoSInfo (fst (snd
        (callback_send_relay env_refused ex_cap ex_session [] initial_state)))) = 2
   \<and> TotalRelays (QoSInfo (fst (snd
        (callback_send_relay env_refused ex_cap ex_session [] initial_state)))) = 4"
proof -
  have f: "TotalRelays (QoSInfo (CalculateQoS e s' cu latency diff n m))
             = TotalRelays (QoSInfo s')
           \<and> AnsweredRelays (QoSInfo (CalculateQoS e s' cu latency diff n m))
               = AnsweredRelays (QoSInfo s')"
    if "CalculateQoS e = CalculateQoS ex_env" for e s' cu latency diff n m
    using that by (simp add: ex_env_def)
  have e1: "CalculateQoS env_refused = CalculateQoS ex_env"
    by (simp add: env_refused_def)
  have inv: "AnsweredRelays (QoSInfo ex_session) \<le> TotalRelays (QoSInfo ex_session)"
    by (simp add: ex_session_def)
  have nowrap: "unat (TotalRelays (QoSInfo ex_session)) + 1 < 2 ^ 64"
    by (simp add: ex_session_def)
  note t0 = relay_counters_invariant
              [of ex_env ex_session ex_cap "[]" initial_state, OF f [OF refl] inv nowrap]
  note t1 = relay_counters_invariant
              [of env_refused ex_session ex_cap "[]" initial_state, OF f [OF e1] inv nowrap]
  have c0: "AnsweredRelays (QoSInfo ex_session) = 2 \<and> TotalRelays (QoSInfo ex_session) = 3"
    by (simp add: ex_session_def)
  have c1: "AnsweredRelays (QoSInfo (fst (snd
        (callback_send_relay ex_env ex_cap ex_session [] initial_state)))) = 3
   \<and> TotalRelays (QoSInfo (fst (snd
        (callback_send_relay ex_env ex_cap ex_session [] initial_state)))) = 4"
    using t0 by (simp add: ex_defs)
  have c2: "AnsweredRelays (QoSInfo (fst (snd
        (callback_send_relay env_refused ex_cap ex_session [] initial_state)))) = 2
   \<and> TotalRelays (QoSInfo (fst (snd
        (callback_send_relay env_refused ex_cap ex_session [] initial_state)))) = 4"
    using t1 by (simp add: ex_defs)
  from c0 c1 c2 show ?thesis by simp
qed

section \<open>A reply that fails verification\<close>

text \<open>
  C2, as stated, fails in its last part: \<open>AnsweredRelays\<close> is incremented as
  soon as the unary reply arrives, before \<open>VerifyRelayReply\<close> runs. With a
  provider whose reply somebody else signed, the callback returns the mismatch
  error and the counter has changed.
\<close>

theorem rejected_reply_counts_as_answered:
  "fst (callback_send_relay env_wrong_key ex_cap ex_session [] initial_state)
     = Inl (mismatch_in_reply ''intruder'' ''provider'')
   \<and> AnsweredRelays (QoSInfo (fst (snd
        (callback_send_relay env_wrong_key ex_cap ex_session [] initial_state))))
      \<noteq> AnsweredRelays (QoSInfo ex_session)"
  by (simp add: callback_send_relay_def relay_answered_def VerifyRelayReply_def emit_def
        primary_request_def Let_def ex_defs initial_state_def)

text \<open>
  C2, amended. When the unary primary relay is answered and \<open>VerifyRelayReply\<close>
  rejects the reply, \<open>callback_send_relay\<close> returns that error and no reply,
  and \<open>AnsweredRelays\<close> is one more than before: it counts the replies
  received, not the replies verified.
\<close>

theorem verification_failure_returns_error:
  assumes sign: "SignRelay e (c_privKey cap) (primary_request e cap s u (c_epoch cap)) = Inr sig"
    and unary: "\<not> c_isSubscription cap"
    and answered: "Relay e (Endpoint_Client s) (WithTimeout (c_ctx cap) DefaultTimeout)
                     ((primary_request e cap s u (c_epoch cap))\<lparr>Sig := sig\<rparr>) = Inr reply"
    and rejected: "VerifyRelayReply e reply
                     (UpdateRequestedBlock e
                        ((primary_request e cap s u (c_epoch cap))\<lparr>Sig := sig\<rparr>) reply)
                     (Client_Acc s) (GetSpecComparesHashes e) = Some err"
  shows "fst (callback_send_relay e cap s u st) = Inl err
    \<and> AnsweredRelays (QoSInfo (fst (snd (callback_send_relay e cap s u st))))
        = AnsweredRelays (QoSInfo s) + 1"
proof -
  let ?rq = "(primary_request e cap s u (c_epoch cap))\<lparr>Sig := sig\<rparr>"
  let ?s1 = "s\<lparr>QoSInfo := (QoSInfo s)\<lparr>TotalRelays := TotalRelays (QoSInfo s) + 1\<rparr>\<rparr>"
  have r: "VerifyRelayReply e reply (UpdateRequestedBlock e ?rq reply) (Client_Acc ?s1)
             (GetSpecComparesHashes e) = Some err"
    using rejected by simp
  show ?thesis
    by (simp add: relay_unary [OF sign unary] answered relay_answered_rejected [OF r])
qed

theorem verification_failure_returns_error_witness:
  "fst (callback_send_relay env_wrong_key ex_cap ex_session [] initial_state)
     = Inl (GoError ''server address mismatch in reply (intruder) (provider)'')
   \<and> AnsweredRelays (QoSInfo ex_session) = 2
   \<and> AnsweredRelays (QoSInfo (fst (snd
        (callback_send_relay env_wrong_key ex_cap ex_session [] initial_state)))) = 3"
proof -
  have sign: "SignRelay env_wrong_key (c_privKey ex_cap)
                (primary_request env_wrong_key ex_cap ex_session [] (c_epoch ex_cap))
              = Inr ''signed''"
    by (simp add: ex_defs)
  have unary: "\<not> c_isSubscription ex_cap"
    by (simp add: ex_defs)
  have answered: "Relay env_wrong_key (Endpoint_Client ex_session)
                    (WithTimeout (c_ctx ex_cap) DefaultTimeout)
                    ((primary_request env_wrong_key ex_cap ex_session [] (c_epoch ex_cap))
                       \<lparr>Sig := ''signed''\<rparr>)
                  = Inr (ex_reply\<lparr>reply_Sig := ''intruder''\<rparr>)"
    by (simp add: ex_defs)
  have rejected: "VerifyRelayReply env_wrong_key (ex_reply\<lparr>reply_Sig := ''intruder''\<rparr>)
                    (UpdateRequestedBlock env_wrong_key
                       ((primary_request env_wrong_key ex_cap ex_session [] (c_epoch ex_cap))
                          \<lparr>Sig := ''signed''\<rparr>) (ex_reply\<lparr>reply_Sig := ''intruder''\<rparr>))
                    (Client_Acc ex_session) (GetSpecComparesHashes env_wrong_key)
                  = Some (GoError ''server address mismatch in reply (intruder) (provider)'')"
    by (simp add: VerifyRelayReply_def mismatch_in_reply_def ex_defs)
  show ?thesis
    using verification_failure_returns_error [OF sign unary answered rejected, of initial_state]
    by (simp add: ex_session_def)
qed

section \<open>Cross-validation of the finalization data\<close>

text \<open>
  C3, as stated, fails on whose address binds the finalization data.
  \<open>VerifyRelayReply\<close> is handed one address, \<open>addr\<close>, the one the signer of
  the reply must have; both callbacks pass \<open>consumerSession.Client.Acc\<close>, which
  the reliability request names as its \<open>Provider\<close>. The consumer's own address
  never reaches the function. Here the finalization data binds to the provider's
  address and not to the consumer's address, and the reply is accepted.
\<close>

theorem accepted_without_binding_to_consumer:
  "signed_by env_bound_to_provider ex_reply
     (primary_request env_bound_to_provider ex_cap ex_session [] 20) ''provider''
   \<and> \<not> finalization_binds_to env_bound_to_provider ex_reply
         (primary_request env_bound_to_provider ex_cap ex_session [] 20) ''consumer''
   \<and> VerifyRelayReply env_bound_to_provider ex_reply
        (primary_request env_bound_to_provider ex_cap ex_session [] 20) ''provider'' True = None"
  by (simp add: signed_by_def finalization_binds_to_def VerifyRelayReply_def ex_defs)

text \<open>
  C3, amended. With the flag set and the primary check passed for \<open>addr\<close>,
  \<open>VerifyRelayReply\<close> decodes \<open>addr\<close> itself, recovers a key from the
  finalization data with that address as the binding context, and accepts the reply
  exactly when the address derived from that key is the decoded \<open>addr\<close>; when the
  derived address differs it fails with the mismatch error of the sigblocks, although
  the same reply passes with the flag off.
\<close>

theorem cross_validation_binds_to_addr:
  assumes primary: "signed_by e reply relayRequest addr"
    and decoded: "AccAddressFromBech32 e addr = Inr strAdd"
  shows "VerifyRelayReply e reply relayRequest addr False = None
    \<and> (VerifyRelayReply e reply relayRequest addr True = None)
        = finalization_binds_to e reply relayRequest strAdd
    \<and> (\<forall>serverKey serverAddr.
          RecoverPubKeyFromResponseFinalizationData e reply relayRequest strAdd = Inr serverKey
          \<and> AccAddressFromHex e (PubKey_Address_String e serverKey) = Inr serverAddr
          \<and> AccAddress_String e serverAddr \<noteq> AccAddress_String e strAdd \<longrightarrow>
          VerifyRelayReply e reply relayRequest addr True =
            Some (mismatch_in_sigblocks (AccAddress_String e serverAddr)
                    (AccAddress_String e strAdd)))"
proof -
  from primary obtain k a where
    k: "RecoverPubKeyFromRelayReply e reply relayRequest = Inr k"
    and a: "AccAddressFromHex e (PubKey_Address_String e k) = Inr a"
    and eq: "AccAddress_String e a = addr"
    by (auto simp: signed_by_def split: sum.splits)
  have off: "VerifyRelayReply e reply relayRequest addr False = None"
    by (simp add: VerifyRelayReply_def k a eq)
  have on: "VerifyRelayReply e reply relayRequest addr True =
              (case RecoverPubKeyFromResponseFinalizationData e reply relayRequest strAdd of
                 Inl err \<Rightarrow> Some err
               | Inr serverKey \<Rightarrow>
                 (case AccAddressFromHex e (PubKey_Address_String e serverKey) of
                    Inl err \<Rightarrow> Some err
                  | Inr serverAddr \<Rightarrow>
                    if AccAddress_String e serverAddr \<noteq> AccAddress_String e strAdd
                    then Some (mismatch_in_sigblocks (AccAddress_String e serverAddr)
                                 (AccAddress_String e strAdd))
                    else None))"
    by (simp add: VerifyRelayReply_def k a eq decoded)
  have iff: "(VerifyRelayReply e reply relayRequest addr True = None)
               = finalization_binds_to e reply relayRequest strAdd"
    by (simp add: on finalization_binds_to_def split: sum.splits)
  have mis: "VerifyRelayReply e reply relayRequest addr True =
               Some (mismatch_in_sigblocks (AccAddress_String e serverAddr)
                       (AccAddress_String e strAdd))"
    if "RecoverPubKeyFromResponseFinalizationData e reply relayRequest strAdd = Inr serverKey
        \<and> AccAddressFromHex e (PubKey_Address_String e serverKey) = Inr serverAddr
        \<and> AccAddress_String e serverAddr \<noteq> AccAddress_String e strAdd"
    for serverKey serverAddr
    using that by (simp add: on)
  from off iff mis show ?thesis by blast
qed

theorem cross_validation_binds_to_addr_witness:
  "VerifyRelayReply env_sigblocks_mismatch ex_reply
     (primary_request env_sigblocks_mismatch ex_cap ex_session [] 20) ''provider'' False = None
   \<and> VerifyRelayReply env_sigblocks_mismatch ex_reply
        (primary_request env_sigblocks_mismatch ex_cap ex_session [] 20) ''provider'' True
      = Some (GoError ''server address mismatch in reply sigblocks (intruder) (provider)'')
   \<and> \<not> finalization_binds_to env_sigblocks_mismatch ex_reply
         (primary_request env_sigblocks_mismatch ex_cap ex_session [] 20) ''provider''"
proof -
  let ?rq = "primary_request env_sigblocks_mismatch ex_cap ex_session [] 20"
  have primary: "signed_by env_sigblocks_mismatch ex_reply ?rq ''provider''"
    by (simp add: signed_by_def ex_defs)
  have decoded: "AccAddressFromBech32 env_sigblocks_mismatch ''provider'' = Inr ''provider''"
    by (simp add: ex_defs)
  have mis: "RecoverPubKeyFromResponseFinalizationData env_sigblocks_mismatch ex_reply ?rq
               ''provider'' = Inr ''intruder''
             \<and> AccAddressFromHex env_sigblocks_mismatch
                 (PubKey_Address_String env_sigblocks_mismatch ''intruder'') = Inr ''intruder''
             \<and> AccAddress_String env_sigblocks_mismatch ''intruder''
                 \<noteq> AccAddress_String env_sigblocks_mismatch ''provider''"
    by (simp add: ex_defs)
  note t = cross_validation_binds_to_addr [OF primary decoded]
  have c1: "VerifyRelayReply env_sigblocks_mismatch ex_reply ?rq ''provider'' False = None"
    using t by simp
  have c2: "VerifyRelayReply env_sigblocks_mismatch ex_reply ?rq ''provider'' True
              = Some (mismatch_in_sigblocks
                        (AccAddress_String env_sigblocks_mismatch ''intruder'')
                        (AccAddress_String env_sigblocks_mismatch ''provider''))"
    using t mis by blast
  have c3: "\<not> finalization_binds_to env_sigblocks_mismatch ex_reply ?rq ''provider''"
    using t c2 by simp
  have s: "AccAddress_String env_sigblocks_mismatch = (\<lambda>a. a)"
    by (simp add: ex_defs)
  from c1 c2 c3 show ?thesis
    by (simp add: mismatch_in_sigblocks_def s)
qed

section \<open>The request of the reliability follow-up\<close>

text \<open>
  Every request that \<open>callback_send_reliability\<close> signs or sends has session
  id 0 and asks for the block held in the shared \<open>requestedBlock\<close>.
\<close>

lemma reliability_new_requests:
  assumes "ev \<in> set (drop (length (trace st))
                    (trace (snd (callback_send_reliability e cap s2 vrf u2 st))))"
    and "event_request ev = Some r"
  shows "SessionId r = 0 \<and> RequestBlock r = requestedBlock st"
  using assms
  by (auto simp: callback_send_reliability_def reliability_request_def emit_def Let_def
           split: if_splits sum.splits option.splits)

text \<open>
  C4. After \<open>callback_send_relay\<close> has had its unary relay answered, the request
  that \<open>callback_send_reliability\<close> builds, and every request it then signs or
  sends, has \<open>SessionId\<close> 0 and the \<open>RequestBlock\<close> that
  \<open>UpdateRequestedBlock\<close> left in the primary request for that reply. The hint
  of the message enters only through the primary request.
\<close>

theorem reliability_request_block:
  assumes sign: "SignRelay e (c_privKey cap) (primary_request e cap s u (c_epoch cap)) = Inr sig"
    and unary: "\<not> c_isSubscription cap"
    and answered: "Relay e (Endpoint_Client s) (WithTimeout (c_ctx cap) DefaultTimeout)
                     ((primary_request e cap s u (c_epoch cap))\<lparr>Sig := sig\<rparr>) = Inr reply"
    and after: "st1 = snd (snd (callback_send_relay e cap s u st))"
    and resolved: "resolved = RequestBlock (UpdateRequestedBlock e
                      ((primary_request e cap s u (c_epoch cap))\<lparr>Sig := sig\<rparr>) reply)"
  shows "SessionId (reliability_request e cap s2 vrf u2 st1) = 0
    \<and> RequestBlock (reliability_request e cap s2 vrf u2 st1) = resolved
    \<and> (\<forall>ev r. ev \<in> set (drop (length (trace st1))
                    (trace (snd (callback_send_reliability e cap s2 vrf u2 st1))))
               \<and> event_request ev = Some r \<longrightarrow>
               SessionId r = 0 \<and> RequestBlock r = resolved)"
proof -
  have rb: "requestedBlock st1 = resolved"
    by (simp add: after resolved relay_unary [OF sign unary] answered)
  have lit: "SessionId (reliability_request e cap s2 vrf u2 st1) = 0
             \<and> RequestBlock (reliability_request e cap s2 vrf u2 st1) = resolved"
    by (simp add: reliability_request_def rb)
  from lit reliability_new_requests [of _ st1 e cap s2 vrf u2] rb show ?thesis
    by auto
qed

theorem reliability_request_block_witness:
  "RequestedBlock (c_nodeMsg ex_cap) = - 2
   \<and> LatestBlock ex_reply = 100
   \<and> SessionId (reliability_request ex_env ex_cap ex_session (Some ex_vrf) []
        (snd (snd (callback_send_relay ex_env ex_cap ex_session [] initial_state)))) = 0
   \<and> RequestBlock (reliability_request ex_env ex_cap ex_session (Some ex_vrf) []
        (snd (snd (callback_send_relay ex_env ex_cap ex_session [] initial_state)))) = 100
   \<and> map (\<lambda>ev. map_option (\<lambda>r. (SessionId r, RequestBlock r)) (event_request ev))
        (filter is_send (trace (snd
           (callback_send_reliability ex_env ex_cap ex_session (Some ex_vrf) []
              (snd (snd (callback_send_relay ex_env ex_cap ex_session [] initial_state)))))))
      = [Some (7, - 2), Some (0, 100)]"
proof -
  have sign: "SignRelay ex_env (c_privKey ex_cap)
                (primary_request ex_env ex_cap ex_session [] (c_epoch ex_cap)) = Inr ''signed''"
    by (simp add: ex_defs)
  have unary: "\<not> c_isSubscription ex_cap"
    by (simp add: ex_defs)
  have answered: "Relay ex_env (Endpoint_Client ex_session)
                    (WithTimeout (c_ctx ex_cap) DefaultTimeout)
                    ((primary_request ex_env ex_cap ex_session [] (c_epoch ex_cap))
                       \<lparr>Sig := ''signed''\<rparr>) = Inr ex_reply"
    by (simp add: ex_defs)
  have resolved: "(100 :: int64) = RequestBlock (UpdateRequestedBlock ex_env
                      ((primary_request ex_env ex_cap ex_session [] (c_epoch ex_cap))
                         \<lparr>Sig := ''signed''\<rparr>) ex_reply)"
    by (simp add: primary_request_def ex_defs)
  have hint: "RequestedBlock (c_nodeMsg ex_cap) = - 2 \<and> LatestBlock ex_reply = 100"
    by (simp add: ex_defs)
  have sent: "map (\<lambda>ev. map_option (\<lambda>r. (SessionId r, RequestBlock r)) (event_request ev))
        (filter is_send (trace (snd
           (callback_send_reliability ex_env ex_cap ex_session (Some ex_vrf) []
              (snd (snd (callback_send_relay ex_env ex_cap ex_session [] initial_state)))))))
      = [Some (7, - 2), Some (0, 100)]"
    by (simp add: callback_send_reliability_def reliability_request_def
          callback_send_relay_def relay_answered_def VerifyRelayReply_def emit_def
          primary_request_def Let_def ex_defs initial_state_def word_sless_alt)
  from hint sent reliability_request_block [OF sign unary answered refl resolved,
         of ex_session "Some ex_vrf" "[]"]
  show ?thesis by simp
qed

section \<open>Releasing the session\<close>

text \<open>
  What \<open>SendRelay\<close> does with the triple the sentry returns: a nil reply makes
  \<open>reply.LatestBlock\<close> panic before \<open>OnSessionDone\<close> is reached; with a reply,
  \<open>OnSessionDone\<close> is the last call, made once. Every error return of the two
  callbacks carries a nil reply, and so does the return of the primary callback for a
  subscription.
\<close>

lemma SendRelay_nil_reply:
  assumes "ParseMsg e url req connectionType = Inr nodeMsg"
    and "GetSession e cx (ComputeUnits (GetServiceApi nodeMsg))
           = Inr (consumerSession, epoch, provider, reported)"
    and "orch cx consumerSession reported epoch provider
           (callback_send_relay e
              (make_captured cx privKey url req connectionType nodeMsg epoch provider))
           (callback_send_reliability e
              (make_captured cx privKey url req connectionType nodeMsg epoch provider))
           (Category (GetServiceApi nodeMsg)) initial_state
         = (Returns ((None, replyServer, err), consumerSession1), st)"
  shows "SendRelay e orch cx privKey url req connectionType = (NilPanic, trace st)"
  using assms by (simp add: SendRelay_def)

lemma SendRelay_reply:
  assumes "ParseMsg e url req connectionType = Inr nodeMsg"
    and "GetSession e cx (ComputeUnits (GetServiceApi nodeMsg))
           = Inr (consumerSession, epoch, provider, reported)"
    and "orch cx consumerSession reported epoch provider
           (callback_send_relay e
              (make_captured cx privKey url req connectionType nodeMsg epoch provider))
           (callback_send_reliability e
              (make_captured cx privKey url req connectionType nodeMsg epoch provider))
           (Category (GetServiceApi nodeMsg)) initial_state
         = (Returns ((Some reply, replyServer, err), consumerSession1), st)"
  shows "SendRelay e orch cx privKey url req connectionType =
           (Returns (Some reply, replyServer, err),
            trace st @ [OnSessionDone_call consumerSession1 epoch (LatestBlock reply)])"
  using assms by (simp add: SendRelay_def)

lemma SendRelay_healthy_releases_once:
  "fst (SendRelay ex_env (sentry_SendRelay None) (Ctx 0) ''consumer-key'' ''/url'' ''{}'' ''POST'')
     = Returns (Some ex_reply, None, None)
   \<and> length (filter is_OnSessionDone
        (snd (SendRelay ex_env (sentry_SendRelay None) (Ctx 0) ''consumer-key'' ''/url'' ''{}''
                ''POST''))) = 1"
  by (simp add: SendRelay_def sentry_SendRelay_def callback_send_relay_def relay_answered_def
        VerifyRelayReply_def emit_def primary_request_def Let_def ex_defs initial_state_def)

lemma SendRelay_subscription_never_releases:
  "fst (SendRelay (ex_env\<lparr>ParseMsg := (\<lambda>url req connectionType. Inr ex_sub_msg)\<rparr>)
          (sentry_SendRelay None) (Ctx 0) ''consumer-key'' ''/ws'' ''{}'' ''POST'') = NilPanic
   \<and> filter is_OnSessionDone
        (snd (SendRelay (ex_env\<lparr>ParseMsg := (\<lambda>url req connectionType. Inr ex_sub_msg)\<rparr>)
                (sentry_SendRelay None) (Ctx 0) ''consumer-key'' ''/ws'' ''{}'' ''POST'')) = []"
  by (simp add: SendRelay_def sentry_SendRelay_def callback_send_relay_def
        emit_def primary_request_def Let_def ex_defs initial_state_def)

text \<open>
  C1 asks that \<open>OnSessionDone\<close> be invoked exactly once whenever a session was
  leased, on every exit path. On the path of a transport timeout it is not: the
  session is leased, the primary callback returns the deadline error and no reply,
  the sentry reports the attempt as failed, and \<open>SendRelay\<close> panics on the nil
  reply with no \<open>OnSessionDone\<close> in the trace.
\<close>

theorem SendRelay_timeout_never_releases:
  "GetSession env_timeout (Ctx 0) (ComputeUnits (GetServiceApi ex_msg))
     = Inr (ex_session, 20, ''provider'', [])
   \<and> fst (callback_send_relay env_timeout ex_cap ex_session [] initial_state)
       = Inl (GoError ''context deadline exceeded'')
   \<and> fst (SendRelay env_timeout (sentry_SendRelay None) (Ctx 0) ''consumer-key'' ''/url'' ''{}''
            ''POST'') = NilPanic
   \<and> filter is_OnSessionDone
        (snd (SendRelay env_timeout (sentry_SendRelay None) (Ctx 0) ''consumer-key'' ''/url''
                ''{}'' ''POST'')) = []"
  by (simp add: SendRelay_def sentry_SendRelay_def callback_send_relay_def send_failed_def
        emit_def primary_request_def Let_def ex_defs initial_state_def
        DeadlineExceeded_Error_def)

end
